theory Spec2Isabelle
  imports Main "HOL-Library.Word"
begin

section \<open>The process descriptor\<close>

text \<open>
  Go's \<open>int\<close> on a 64-bit platform: a 64-bit two's complement integer. \<open>+\<close> wraps,
  \<open>=\<close> compares the bits, and the ordered comparisons of the source are the signed
  ones (\<open>\<le>s\<close>, read through \<open>sint\<close>).
\<close>

type_synonym goint = "64 word"

text \<open>
  A non-nil value of Go's \<open>error\<close> interface, with its message: \<open>OsError\<close> is an
  error handed over by the operating system collaborator (\<open>cmd.Start\<close>,
  \<open>Process.Signal\<close>, \<open>cmd.Wait\<close>), \<open>Errorf\<close> one that the supervisor builds
  itself with \<open>fmt.Errorf\<close>. A nil error is \<open>None\<close> of \<open>err option\<close>.
\<close>

datatype err = OsError string | Errorf string

text \<open>The verb \<open>%v\<close> of package fmt, applied to an error value.\<close>

fun fmt_v :: "err option \<Rightarrow> string" where
  "fmt_v None = ''<nil>''"
| "fmt_v (Some (OsError m)) = m"
| "fmt_v (Some (Errorf m)) = m"

text \<open>
  Contexts, as far as \<open>Run\<close> builds them: the caller's context and the context that
  \<open>context.WithCancel\<close> derives from it. A \<open>CancelFunc\<close> is identified by the context
  it cancels.
\<close>

datatype go_context = Caller nat | WithCancel go_context

text \<open>An \<open>io.Writer\<close> is an opaque sink, identified by a number.\<close>

type_synonym writer = nat

text \<open>
  The struct \<open>Process\<close>, field by field. The unexported fields \<open>cmd\<close> and \<open>result\<close>
  are the handle of the child and the channel that delivers its exit; what they
  deliver belongs to the operating system and is an input of the model (see \<open>world\<close>).
  \<open>logf\<close> writes a line to the sink \<open>Stderr\<close> and changes no field, so the calls
  of \<open>logf\<close> leave no trace in the model.
\<close>

record Process =
  Cmd :: string
  Args :: "string list"
  Dir :: string
  Env :: "string list"
  Stdout :: "writer option"
  Stderr :: "writer option"
  StartTimeout :: goint
  BackoffTimeout :: goint
  StopTimeout :: goint
  KillTimeout :: goint
  MaxStartAttempts :: goint
  MaxRestarts :: goint
  RestartTimeout :: goint
  RestartPolicy :: string
  StartAttempt :: goint
  RestartCount :: goint
  State :: string
  LastError :: "err option"
  Stop :: "go_context option"

text \<open>The package constants.\<close>

definition restartTimeout :: goint where
  "restartTimeout = 100"

definition startTimeout :: goint where
  "startTimeout = 1000"

definition backoffTimeout :: goint where
  "backoffTimeout = 5000"

definition stopTimeout :: goint where
  "stopTimeout = 20000"

definition killTimeout :: goint where
  "killTimeout = 5000"

section \<open>The entry point\<close>

text \<open>
  The synchronous part of \<open>Run\<close>: everything it does to the descriptor before it
  returns the result channel. The state machine itself runs in the goroutine that
  \<open>Run\<close> starts (see \<open>run\<close> below).
\<close>

definition Run :: "go_context \<Rightarrow> Process \<Rightarrow> Process" where
  "Run ctx p =
    (let p = p\<lparr>Stop := Some (WithCancel ctx)\<rparr>;
         p = (if StartTimeout p = 0 then p\<lparr>StartTimeout := startTimeout\<rparr> else p);
         p = (if StopTimeout p = 0 then p\<lparr>StopTimeout := stopTimeout\<rparr> else p);
         p = (if BackoffTimeout p = 0 then p\<lparr>BackoffTimeout := backoffTimeout\<rparr> else p);
         p = (if RestartTimeout p = 0 then p\<lparr>RestartTimeout := restartTimeout\<rparr> else p);
         p = (if KillTimeout p = 0 then p\<lparr>KillTimeout := killTimeout\<rparr> else p)
     in p)"

section \<open>The state functions\<close>

text \<open>The eight state functions, by name.\<close>

datatype sname =
  Starting | Running | Stopping | Killing | Backoff | Failed | Restarting | Stopped

text \<open>
  What the world answers during one call of a state function. \<open>os_err\<close> is the
  result of the system call the function makes first (\<open>cmd.Start\<close> in \<open>starting\<close>,
  \<open>Process.Signal\<close> in \<open>stopping\<close> and \<open>killing\<close>; the other functions make none).
  \<open>wake\<close> is the case its \<open>select\<close> statement commits to: \<open>Done\<close> for
  \<open><-c.Done()\<close>, \<open>Result r\<close> for the value \<open>r\<close> received from \<open>p.result\<close>
  (the result of \<open>cmd.Wait\<close>), \<open>After\<close> for the timer of \<open>time.After\<close>.
\<close>

datatype wake = Done | Result "err option" | After

record world =
  os_err :: "err option"
  wake :: wake

text \<open>
  A state function takes the context \<open>c\<close>, here the one fact the functions read
  from it: whether it is cancelled, so that \<open>c.Done()\<close> is ready. It returns the
  next state function (\<open>None\<close> for Go's nil) and the descriptor as it leaves it.
  The outer \<open>option\<close> is \<open>None\<close> where the answer of the world is not one this
  call can observe: its \<open>select\<close> has no such case, or the case is \<open><-c.Done()\<close>
  and the context is not cancelled.
\<close>

type_synonym transition = "(sname option \<times> Process) option"

definition starting :: "bool \<Rightarrow> world \<Rightarrow> Process \<Rightarrow> transition" where
  "starting c w p =
    (let p = p\<lparr>LastError := os_err w\<rparr> in
     if LastError p \<noteq> None then Some (Some Failed, p)
     else
       (case wake w of
          Done \<Rightarrow> if c then Some (Some Stopping, p) else None
        | Result r \<Rightarrow>
            (let p = p\<lparr>LastError := r\<rparr> in
             if RestartPolicy p = ''on-failure'' then
               (if LastError p = None then Some (Some Stopped, p)
                else Some (Some Backoff, p))
             else if RestartPolicy p = ''always'' then Some (Some Backoff, p)
             else Some (Some Stopped, p))
        | After \<Rightarrow> Some (Some Running, p\<lparr>LastError := None, StartAttempt := 0\<rparr>)))"

definition stopping :: "bool \<Rightarrow> world \<Rightarrow> Process \<Rightarrow> transition" where
  "stopping c w p =
    (let p = p\<lparr>LastError := os_err w\<rparr> in
     if LastError p \<noteq> None then Some (Some Failed, p)
     else
       (case wake w of
          Result r \<Rightarrow> Some (Some Stopped, p\<lparr>LastError := r\<rparr>)
        | After \<Rightarrow> Some (Some Killing, p)
        | Done \<Rightarrow> None))"

definition killing :: "bool \<Rightarrow> world \<Rightarrow> Process \<Rightarrow> transition" where
  "killing c w p =
    (let p = p\<lparr>LastError := os_err w\<rparr> in
     if LastError p \<noteq> None then Some (Some Failed, p)
     else
       (case wake w of
          Result r \<Rightarrow> Some (Some Stopped, p\<lparr>LastError := r\<rparr>)
        | After \<Rightarrow>
            Some (Some Failed, p\<lparr>LastError := Some (Errorf ''failed to kill process'')\<rparr>)
        | Done \<Rightarrow> None))"

definition backoff :: "bool \<Rightarrow> world \<Rightarrow> Process \<Rightarrow> transition" where
  "backoff c w p =
    (let p = p\<lparr>StartAttempt := StartAttempt p + 1\<rparr> in
     if MaxStartAttempts p \<noteq> 0 \<and> MaxStartAttempts p \<le>s StartAttempt p then
       Some (Some Failed,
         p\<lparr>LastError := Some (Errorf
           (''maximum start attempts reached (last error: '' @ fmt_v (LastError p) @ '')''))\<rparr>)
     else
       (case wake w of
          Done \<Rightarrow> if c then Some (Some Stopping, p) else None
        | After \<Rightarrow> Some (Some Starting, p\<lparr>LastError := None\<rparr>)
        | Result r \<Rightarrow> None))"

definition failed :: "bool \<Rightarrow> world \<Rightarrow> Process \<Rightarrow> transition" where
  "failed c w p = Some (None, p)"

definition restarting :: "bool \<Rightarrow> world \<Rightarrow> Process \<Rightarrow> transition" where
  "restarting c w p =
    (let p = p\<lparr>RestartCount := RestartCount p + 1\<rparr> in
     if MaxRestarts p \<noteq> 0 \<and> MaxRestarts p \<le>s RestartCount p then
       (if LastError p \<noteq> None then Some (Some Failed, p) else Some (Some Stopped, p))
     else
       (case wake w of
          Done \<Rightarrow> if c then Some (Some Stopping, p) else None
        | After \<Rightarrow> Some (Some Starting, p\<lparr>LastError := None\<rparr>)
        | Result r \<Rightarrow> None))"

definition running :: "bool \<Rightarrow> world \<Rightarrow> Process \<Rightarrow> transition" where
  "running c w p =
    (case wake w of
       Done \<Rightarrow> if c then Some (Some Stopping, p) else None
     | Result r \<Rightarrow>
         (let p = p\<lparr>LastError := r\<rparr> in
          if RestartPolicy p = ''on-failure'' then
            (if LastError p = None then Some (Some Stopped, p)
             else Some (Some Restarting, p))
          else if RestartPolicy p = ''always'' then Some (Some Restarting, p)
          else Some (Some Stopped, p))
     | After \<Rightarrow> None)"

definition stopped :: "bool \<Rightarrow> world \<Rightarrow> Process \<Rightarrow> transition" where
  "stopped c w p = Some (None, p)"

section \<open>The runner\<close>

text \<open>
  Modelled from the spec: the runner \<open>state.Run\<close> and \<open>state.Name\<close> of the package
  go-state, which this repository imports. Section 4.1 of the specification: report
  the name of the active state to the observer, call the active state function with
  the context, and go on with the function it returns until it returns none. The
  observer that \<open>Run\<close> passes stores the name in the field \<open>State\<close>; the names are
  those of the methods, as the repository's test reads them (\<open>stopped\<close>).
\<close>

fun state_Name :: "sname \<Rightarrow> string" where
  "state_Name Starting = ''starting''"
| "state_Name Running = ''running''"
| "state_Name Stopping = ''stopping''"
| "state_Name Killing = ''killing''"
| "state_Name Backoff = ''backoff''"
| "state_Name Failed = ''failed''"
| "state_Name Restarting = ''restarting''"
| "state_Name Stopped = ''stopped''"

fun state_Func :: "sname \<Rightarrow> bool \<Rightarrow> world \<Rightarrow> Process \<Rightarrow> transition" where
  "state_Func Starting = starting"
| "state_Func Running = running"
| "state_Func Stopping = stopping"
| "state_Func Killing = killing"
| "state_Func Backoff = backoff"
| "state_Func Failed = failed"
| "state_Func Restarting = restarting"
| "state_Func Stopped = stopped"

text \<open>One round of the runner: the observer, then the state function.\<close>

definition step :: "bool \<Rightarrow> world \<Rightarrow> sname \<Rightarrow> Process \<Rightarrow> transition" where
  "step c w s p = state_Func s c w (p\<lparr>State := state_Name s\<rparr>)"

text \<open>
  The runner over the answers of the world, one per call of a state function. When
  the answers are used up the run is still in progress, in the configuration
  returned; a configuration without a next state function is the end of the run.
\<close>

fun run :: "(bool \<times> world) list \<Rightarrow> sname option \<times> Process \<Rightarrow> transition" where
  "run [] cfg = Some cfg"
| "run (cw # cws) (None, p) = Some (None, p)"
| "run ((c, w) # cws) (Some s, p) =
     (case step c w s p of None \<Rightarrow> None | Some cfg \<Rightarrow> run cws cfg)"

section \<open>Cancellation and concrete descriptors\<close>

text \<open>
  Modelled from the spec: \<open>context.WithCancel\<close> of Go's library, as section 4.3 of
  the specification has it. The context that the state functions receive is the one
  \<open>Run\<close> derives from the caller's context: it is cancelled once the caller's
  context is cancelled or the \<open>Stop\<close> handle has been called.
\<close>

definition cancelled :: "bool \<Rightarrow> bool \<Rightarrow> bool" where
  "cancelled caller_done stop_called = (caller_done \<or> stop_called)"

text \<open>
  The descriptor of the repository's test \<open>TestRun\<close>: a command and its argument,
  every other field at Go's zero value.
\<close>

definition sleep_descriptor :: Process where
  "sleep_descriptor =
    \<lparr>Cmd = ''/bin/sleep'', Args = [''1''], Dir = [], Env = [], Stdout = None, Stderr = None,
     StartTimeout = 0, BackoffTimeout = 0, StopTimeout = 0, KillTimeout = 0,
     MaxStartAttempts = 0, MaxRestarts = 0, RestartTimeout = 0, RestartPolicy = [],
     StartAttempt = 0, RestartCount = 0, State = [], LastError = None, Stop = None\<rparr>"

text \<open>Answers of the world: the system call succeeds and the \<open>select\<close> commits to a case.\<close>

definition ok :: "wake \<Rightarrow> world" where
  "ok k = \<lparr>os_err = None, wake = k\<rparr>"

text \<open>
  A descriptor with both budgets set: policy \<open>always\<close>, one start attempt, three
  restarts (the budget of the repository's test \<open>TestRestart\<close>).
\<close>

definition bounded_descriptor :: Process where
  "bounded_descriptor =
    sleep_descriptor\<lparr>RestartPolicy := ''always'', MaxStartAttempts := 1, MaxRestarts := 3\<rparr>"

section \<open>Invariants of a run\<close>

text \<open>
  What holds of the start-attempt counter in every configuration of a run that
  starts with the counter at least 0 and below the budget: it lies between 0 and the
  budget, and below the budget unless the run has gone to \<open>failed\<close> or has ended. The same for the restart counter, where the
  budget ends the run through \<open>failed\<close> or \<open>stopped\<close>.
\<close>

definition start_budget_inv :: "sname option \<times> Process \<Rightarrow> bool" where
  "start_budget_inv cfg =
    (0 \<le>s StartAttempt (snd cfg) \<and> StartAttempt (snd cfg) \<le>s MaxStartAttempts (snd cfg)
     \<and> (fst cfg = Some Failed \<or> fst cfg = None
          \<or> StartAttempt (snd cfg) <s MaxStartAttempts (snd cfg)))"

definition restart_budget_inv :: "sname option \<times> Process \<Rightarrow> bool" where
  "restart_budget_inv cfg =
    (0 \<le>s RestartCount (snd cfg) \<and> RestartCount (snd cfg) \<le>s MaxRestarts (snd cfg)
     \<and> (fst cfg = Some Failed \<or> fst cfg = Some Stopped \<or> fst cfg = None
          \<or> RestartCount (snd cfg) <s MaxRestarts (snd cfg)))"

section \<open>Lemmas on the state functions\<close>

lemmas state_defs = starting_def running_def stopping_def killing_def backoff_def
  failed_def restarting_def stopped_def

lemma into_failed_has_error:
  "state_Func s c w p = Some (Some Failed, p') \<Longrightarrow> LastError p' \<noteq> None"
  by (cases s) (auto simp add: state_defs Let_def split: wake.splits if_splits)

lemma halt_only_terminal:
  "state_Func s c w p = Some (None, p') \<Longrightarrow> (s = Failed \<or> s = Stopped) \<and> p' = p"
  by (cases s) (auto simp add: state_defs Let_def split: wake.splits if_splits)

lemma run_halted: "run es (None, p) = Some (None, p)"
  by (cases es) simp_all

lemma run_failed_inv:
  "run es (so, p) = Some (so', p') \<Longrightarrow>
   (so = Some Failed \<longrightarrow> LastError p \<noteq> None) \<Longrightarrow>
   (so = None \<and> State p = ''failed'' \<longrightarrow> LastError p \<noteq> None) \<Longrightarrow>
   (so' = Some Failed \<longrightarrow> LastError p' \<noteq> None) \<and>
   (so' = None \<and> State p' = ''failed'' \<longrightarrow> LastError p' \<noteq> None)"
proof (induction es arbitrary: so p)
  case Nil
  then show ?case by simp
next
  case (Cons cw es)
  obtain c w where cw: "cw = (c, w)" by (cases cw)
  show ?case
  proof (cases so)
    case None
    with Cons.prems show ?thesis by simp
  next
    case (Some s)
    with Cons.prems(1) cw obtain so1 p1 where
      st: "step c w s p = Some (so1, p1)" and rest: "run es (so1, p1) = Some (so', p')"
      by (auto split: option.splits)
    from st have sf: "state_Func s c w (p\<lparr>State := state_Name s\<rparr>) = Some (so1, p1)"
      by (simp add: step_def)
    have a: "so1 = Some Failed \<longrightarrow> LastError p1 \<noteq> None"
      using sf into_failed_has_error by blast
    have b: "so1 = None \<and> State p1 = ''failed'' \<longrightarrow> LastError p1 \<noteq> None"
    proof (intro impI, elim conjE)
      assume n: "so1 = None" and f: "State p1 = ''failed''"
      from sf n have t: "s = Failed \<or> s = Stopped" and e: "p1 = p\<lparr>State := state_Name s\<rparr>"
        using halt_only_terminal by blast+
      from e f have "state_Name s = ''failed''" by simp
      with t have "s = Failed" by auto
      with Some Cons.prems(2) e show "LastError p1 \<noteq> None" by simp
    qed
    from Cons.IH [OF rest a b] show ?thesis .
  qed
qed

lemma sint_succ_max:
  fixes x :: goint
  assumes "sint x < 2 ^ 63 - 1"
  shows "sint (x + 1) = sint x + 1"
proof -
  have "- (2 ^ 63) \<le> sint x" using sint_ge [of x] by simp
  then have "signed_take_bit 63 (sint x + 1) = sint x + 1"
    using assms by (intro signed_take_bit_int_eq_self) auto
  then show ?thesis by (simp add: sint_word_ariths)
qed

lemma sint_succ:
  fixes x m :: goint
  assumes "sint x < sint m"
  shows "sint (x + 1) = sint x + 1"
proof -
  have "sint m < 2 ^ 63" using sint_lt [of m] by simp
  with assms show ?thesis by (intro sint_succ_max) simp
qed

lemma run_invariant:
  assumes pres: "\<And>c w s p cfg'. I (Some s, p) \<Longrightarrow> step c w s p = Some cfg' \<Longrightarrow> I cfg'"
    and "I cfg" and "run es cfg = Some cfg'"
  shows "I cfg'"
  using assms(2,3)
proof (induction es arbitrary: cfg)
  case Nil
  then show ?case by simp
next
  case (Cons cw es)
  obtain c w where cw: "cw = (c, w)" by (cases cw)
  obtain so p where cfg: "cfg = (so, p)" by (cases cfg)
  show ?case
  proof (cases so)
    case None
    with Cons.prems cfg show ?thesis by simp
  next
    case (Some s)
    with Cons.prems(2) cw cfg obtain cfg1 where
      st: "step c w s p = Some cfg1" and rest: "run es cfg1 = Some cfg'"
      by (auto split: option.splits)
    from Cons.prems(1) cfg Some have "I (Some s, p)" by simp
    from pres [OF this st] have "I cfg1" .
    from Cons.IH [OF this rest] show ?thesis .
  qed
qed

lemma step_counters:
  assumes "step c w s p = Some (so, p')"
  shows "(RestartCount p' = RestartCount p
          \<or> (s = Restarting \<and> RestartCount p' = RestartCount p + 1))
    \<and> (StartAttempt p' = StartAttempt p
          \<or> (s = Backoff \<and> StartAttempt p' = StartAttempt p + 1)
          \<or> (s = Starting \<and> os_err w = None \<and> wake w = After \<and> so = Some Running
               \<and> StartAttempt p' = 0))"
  using assms
  by (cases s) (auto simp add: step_def state_defs Let_def split: wake.splits if_splits)

lemma run_RestartCount:
  "run es (so, p) = Some (so', p') \<Longrightarrow>
   sint (RestartCount p) + int (length es) < 2 ^ 63 \<Longrightarrow>
   sint (RestartCount p) \<le> sint (RestartCount p')
   \<and> sint (RestartCount p') \<le> sint (RestartCount p) + int (length es)"
proof (induction es arbitrary: so p)
  case Nil
  then show ?case by simp
next
  case (Cons cw es)
  obtain c w where cw: "cw = (c, w)" by (cases cw)
  show ?case
  proof (cases so)
    case None
    with Cons.prems show ?thesis by simp
  next
    case (Some s)
    with Cons.prems(1) cw obtain so1 p1 where
      st: "step c w s p = Some (so1, p1)" and rest: "run es (so1, p1) = Some (so', p')"
      by (auto split: option.splits)
    have one: "sint (RestartCount p) \<le> sint (RestartCount p1)
      \<and> sint (RestartCount p1) \<le> sint (RestartCount p) + 1"
    proof (cases "RestartCount p1 = RestartCount p")
      case True
      then show ?thesis by simp
    next
      case False
      with step_counters [OF st] have "RestartCount p1 = RestartCount p + 1" by blast
      moreover have "sint (RestartCount p + 1) = sint (RestartCount p) + 1"
        using Cons.prems(2) by (intro sint_succ_max) simp
      ultimately show ?thesis by simp
    qed
    with Cons.prems(2) have "sint (RestartCount p1) + int (length es) < 2 ^ 63" by simp
    from Cons.IH [OF rest this] one show ?thesis by simp
  qed
qed

lemma step_keeps_budgets:
  "step c w s p = Some (so, p') \<Longrightarrow>
   MaxStartAttempts p' = MaxStartAttempts p \<and> MaxRestarts p' = MaxRestarts p"
  by (cases s) (auto simp add: step_def state_defs Let_def split: wake.splits if_splits)

lemma backoff_start_budget:
  assumes "backoff c w p = Some (so, p')" and "0 \<le> sint (StartAttempt p)"
    and "sint (StartAttempt p) < sint (MaxStartAttempts p)"
  shows "sint (StartAttempt p') = sint (StartAttempt p) + 1
    \<and> (so = Some Failed \<longrightarrow> StartAttempt p' = MaxStartAttempts p)
    \<and> (so \<noteq> Some Failed \<longrightarrow> sint (StartAttempt p') < sint (MaxStartAttempts p))
    \<and> so \<noteq> None"
proof -
  have s: "sint (StartAttempt p + 1) = sint (StartAttempt p) + 1"
    using assms(3) by (rule sint_succ)
  have nz: "MaxStartAttempts p \<noteq> 0" using assms(2,3) by auto
  show ?thesis
  proof (cases "MaxStartAttempts p \<le>s StartAttempt p + 1")
    case True
    then have "sint (MaxStartAttempts p) = sint (StartAttempt p + 1)"
      using s assms(3) by (simp add: word_sle_eq)
    then have "MaxStartAttempts p = StartAttempt p + 1" by (rule signed_word_eqI)
    with assms(1) True nz s show ?thesis by (auto simp add: backoff_def Let_def)
  next
    case False
    then have "sint (StartAttempt p + 1) < sint (MaxStartAttempts p)"
      by (simp add: word_sle_eq)
    with assms(1) False s show ?thesis
      by (auto simp add: backoff_def Let_def split: wake.splits if_splits)
  qed
qed

lemma step_start_budget_inv:
  assumes "start_budget_inv (Some s, p)" and "step c w s p = Some cfg'"
  shows "start_budget_inv cfg'"
proof -
  obtain so p' where cfg': "cfg' = (so, p')" by (cases cfg')
  show ?thesis
  proof (cases "s = Backoff")
    case True
    with assms cfg' have b: "backoff c w (p\<lparr>State := ''backoff''\<rparr>) = Some (so, p')"
      by (simp add: step_def)
    from assms(1) True have pre: "0 \<le> sint (StartAttempt (p\<lparr>State := ''backoff''\<rparr>))"
      "sint (StartAttempt (p\<lparr>State := ''backoff''\<rparr>))
         < sint (MaxStartAttempts (p\<lparr>State := ''backoff''\<rparr>))"
      by (simp_all add: start_budget_inv_def word_sle_eq word_sless_alt)
    from backoff_start_budget [OF b pre] step_keeps_budgets [of c w s p so p'] assms(2) cfg' pre
    show ?thesis
      by (cases "so = Some Failed") (auto simp add: start_budget_inv_def word_sle_eq word_sless_alt)
  next
    case False
    with assms cfg' show ?thesis
      by (cases s)
        (auto simp add: step_def state_defs Let_def start_budget_inv_def word_sle_eq
          word_sless_alt split: wake.splits if_splits)
  qed
qed


lemma restarting_restart_budget:
  assumes "restarting c w p = Some (so, p')" and "0 \<le> sint (RestartCount p)"
    and "sint (RestartCount p) < sint (MaxRestarts p)"
  shows "sint (RestartCount p') = sint (RestartCount p) + 1
    \<and> (so = Some Failed \<or> so = Some Stopped \<longrightarrow> RestartCount p' = MaxRestarts p)
    \<and> (so \<noteq> Some Failed \<and> so \<noteq> Some Stopped
          \<longrightarrow> sint (RestartCount p') < sint (MaxRestarts p))
    \<and> so \<noteq> None"
proof -
  have s: "sint (RestartCount p + 1) = sint (RestartCount p) + 1"
    using assms(3) by (rule sint_succ)
  have nz: "MaxRestarts p \<noteq> 0" using assms(2,3) by auto
  show ?thesis
  proof (cases "MaxRestarts p \<le>s RestartCount p + 1")
    case True
    then have "sint (MaxRestarts p) = sint (RestartCount p + 1)"
      using s assms(3) by (simp add: word_sle_eq)
    then have "MaxRestarts p = RestartCount p + 1" by (rule signed_word_eqI)
    with assms(1) True nz s show ?thesis
      by (auto simp add: restarting_def Let_def split: if_splits)
  next
    case False
    then have "sint (RestartCount p + 1) < sint (MaxRestarts p)"
      by (simp add: word_sle_eq)
    with assms(1) False s show ?thesis
      by (auto simp add: restarting_def Let_def split: wake.splits if_splits)
  qed
qed

lemma step_restart_budget_inv:
  assumes "restart_budget_inv (Some s, p)" and "step c w s p = Some cfg'"
  shows "restart_budget_inv cfg'"
proof -
  obtain so p' where cfg': "cfg' = (so, p')" by (cases cfg')
  show ?thesis
  proof (cases "s = Restarting")
    case True
    with assms cfg' have b: "restarting c w (p\<lparr>State := ''restarting''\<rparr>) = Some (so, p')"
      by (simp add: step_def)
    from assms(1) True have pre: "0 \<le> sint (RestartCount (p\<lparr>State := ''restarting''\<rparr>))"
      "sint (RestartCount (p\<lparr>State := ''restarting''\<rparr>))
         < sint (MaxRestarts (p\<lparr>State := ''restarting''\<rparr>))"
      by (simp_all add: restart_budget_inv_def word_sle_eq word_sless_alt)
    from restarting_restart_budget [OF b pre] step_keeps_budgets [of c w s p so p'] assms(2)
      cfg' pre
    show ?thesis
      by (cases "so = Some Failed \<or> so = Some Stopped")
        (auto simp add: restart_budget_inv_def word_sle_eq word_sless_alt)
  next
    case False
    with assms cfg' show ?thesis
      by (cases s)
        (auto simp add: step_def state_defs Let_def restart_budget_inv_def word_sle_eq
          word_sless_alt split: wake.splits if_splits)
  qed
qed

lemma run_keeps_budgets:
  assumes "run es (so, p) = Some (so', p')"
  shows "MaxStartAttempts p' = MaxStartAttempts p \<and> MaxRestarts p' = MaxRestarts p"
proof -
  let ?I = "\<lambda>cfg. MaxStartAttempts (snd cfg) = MaxStartAttempts p
    \<and> MaxRestarts (snd cfg) = MaxRestarts p"
  have "?I (so', p')"
  proof (rule run_invariant [where I = ?I, OF _ _ assms])
    show "?I (so, p)" by simp
  next
    fix c w s q cfg'
    assume "?I (Some s, q)" and "step c w s q = Some cfg'"
    then show "?I cfg'" using step_keeps_budgets [of c w s q "fst cfg'" "snd cfg'"] by simp
  qed
  then show ?thesis by simp
qed

lemma run_start_budget_inv:
  assumes "run es (Some Starting, p0) = Some (so, p)"
    and "0 \<le>s StartAttempt p0" and "StartAttempt p0 <s MaxStartAttempts p0"
  shows "start_budget_inv (so, p)"
proof (rule run_invariant [where I = start_budget_inv, OF _ _ assms(1)])
  show "start_budget_inv (Some Starting, p0)"
    using assms(2,3) by (simp add: start_budget_inv_def word_sle_eq word_sless_alt)
qed (rule step_start_budget_inv)

lemma run_restart_budget_inv:
  assumes "run es (Some Starting, p0) = Some (so, p)"
    and "0 \<le>s RestartCount p0" and "RestartCount p0 <s MaxRestarts p0"
  shows "restart_budget_inv (so, p)"
proof (rule run_invariant [where I = restart_budget_inv, OF _ _ assms(1)])
  show "restart_budget_inv (Some Starting, p0)"
    using assms(2,3) by (simp add: restart_budget_inv_def word_sle_eq word_sless_alt)
qed (rule step_restart_budget_inv)

lemma start_budget_part:
  assumes r: "run es (Some Starting, p0) = Some (so, p)"
    and m: "0 \<le>s StartAttempt p0" and z: "StartAttempt p0 <s MaxStartAttempts p0"
  shows "0 \<le>s StartAttempt p \<and> StartAttempt p \<le>s MaxStartAttempts p0
    \<and> (\<forall>c w p'. so = Some Backoff \<and> step c w Backoff p = Some (Some Failed, p')
          \<longrightarrow> StartAttempt p' = MaxStartAttempts p0)
    \<and> (MaxStartAttempts p0 = 1 \<and> so = Some Backoff \<longrightarrow>
          (\<forall>c w. step c w Backoff p = Some (Some Failed,
             p\<lparr>State := ''backoff'', StartAttempt := 1, LastError := Some (Errorf
               (''maximum start attempts reached (last error: '' @ fmt_v (LastError p)
                 @ '')''))\<rparr>)))"
proof -
  from run_start_budget_inv [OF r m z] have inv: "start_budget_inv (so, p)" .
  from run_keeps_budgets [OF r] have k: "MaxStartAttempts p = MaxStartAttempts p0" by simp
  from inv k have a: "0 \<le>s StartAttempt p \<and> StartAttempt p \<le>s MaxStartAttempts p0"
    by (simp add: start_budget_inv_def)
  have b: "StartAttempt p' = MaxStartAttempts p0"
    if "so = Some Backoff" and "step c w Backoff p = Some (Some Failed, p')" for c w p'
  proof -
    from that(2) have st: "backoff c w (p\<lparr>State := ''backoff''\<rparr>) = Some (Some Failed, p')"
      by (simp add: step_def)
    from inv that(1) have pre: "0 \<le> sint (StartAttempt (p\<lparr>State := ''backoff''\<rparr>))"
      "sint (StartAttempt (p\<lparr>State := ''backoff''\<rparr>))
         < sint (MaxStartAttempts (p\<lparr>State := ''backoff''\<rparr>))"
      by (simp_all add: start_budget_inv_def word_sle_eq word_sless_alt)
    from backoff_start_budget [OF st pre] k show ?thesis by simp
  qed
  have c: "step c w Backoff p = Some (Some Failed,
      p\<lparr>State := ''backoff'', StartAttempt := 1, LastError := Some (Errorf
        (''maximum start attempts reached (last error: '' @ fmt_v (LastError p) @ '')''))\<rparr>)"
    if "MaxStartAttempts p0 = 1" and "so = Some Backoff" for c w
  proof -
    from inv that k have "sint (StartAttempt p) = sint (0 :: goint)"
      by (simp add: start_budget_inv_def word_sle_eq word_sless_alt)
    then have "StartAttempt p = 0" by (rule signed_word_eqI)
    with that(1) k show ?thesis
      by (simp add: step_def backoff_def Let_def)
  qed
  from a b c show ?thesis by blast
qed

lemma restart_budget_part:
  assumes r: "run es (Some Starting, p0) = Some (so, p)"
    and m: "0 \<le>s RestartCount p0" and z: "RestartCount p0 <s MaxRestarts p0"
  shows "0 \<le>s RestartCount p \<and> RestartCount p \<le>s MaxRestarts p0
    \<and> (\<forall>c w so' p'. so = Some Restarting \<and> step c w Restarting p = Some (so', p')
          \<and> (so' = Some Failed \<or> so' = Some Stopped)
          \<longrightarrow> RestartCount p' = MaxRestarts p0)"
proof -
  from run_restart_budget_inv [OF r m z] have inv: "restart_budget_inv (so, p)" .
  from run_keeps_budgets [OF r] have k: "MaxRestarts p = MaxRestarts p0" by simp
  from inv k have a: "0 \<le>s RestartCount p \<and> RestartCount p \<le>s MaxRestarts p0"
    by (simp add: restart_budget_inv_def)
  have b: "RestartCount p' = MaxRestarts p0"
    if "so = Some Restarting" and "step c w Restarting p = Some (so', p')"
      and "so' = Some Failed \<or> so' = Some Stopped" for c w so' p'
  proof -
    from that(2) have st: "restarting c w (p\<lparr>State := ''restarting''\<rparr>) = Some (so', p')"
      by (simp add: step_def)
    from inv that(1) have pre: "0 \<le> sint (RestartCount (p\<lparr>State := ''restarting''\<rparr>))"
      "sint (RestartCount (p\<lparr>State := ''restarting''\<rparr>))
         < sint (MaxRestarts (p\<lparr>State := ''restarting''\<rparr>))"
      by (simp_all add: restart_budget_inv_def word_sle_eq word_sless_alt)
    from restarting_restart_budget [OF st pre] that(3) k show ?thesis by simp
  qed
  from a b show ?thesis by blast
qed

section \<open>Restart policy\<close>

text \<open>
  C1. The restart policy is evaluated in the same way where \<open>starting\<close> and where
  \<open>running\<close> see the child exit with the result \<open>r\<close>: policy \<open>always\<close> restarts
  whatever \<open>r\<close> is, policy \<open>on-failure\<close> restarts when \<open>r\<close> is an error and stops
  when it is nil, and every other policy string stops. Restarting is the successor
  \<open>backoff\<close> for \<open>starting\<close> and \<open>restarting\<close> for \<open>running\<close>; \<open>r\<close> becomes
  the last error. (\<open>starting\<close> reaches its \<open>select\<close> when the spawn succeeded.)
\<close>

theorem restart_policy_evaluation:
  assumes "wake w = Result r"
  shows "(os_err w = None \<longrightarrow>
      starting c w p =
        Some (Some (if RestartPolicy p = ''always''
                      \<or> (RestartPolicy p = ''on-failure'' \<and> r \<noteq> None)
                    then Backoff else Stopped), p\<lparr>LastError := r\<rparr>))
    \<and> running c w p =
        Some (Some (if RestartPolicy p = ''always''
                      \<or> (RestartPolicy p = ''on-failure'' \<and> r \<noteq> None)
                    then Restarting else Stopped), p\<lparr>LastError := r\<rparr>)"
  using assms by (simp add: starting_def running_def Let_def)

theorem restart_policy_evaluation_witness:
  "wake (ok (Result (Some (OsError ''exit status 1'')))) = Result (Some (OsError ''exit status 1''))
   \<and> os_err (ok (Result (Some (OsError ''exit status 1'')))) = None
   \<and> starting False (ok (Result (Some (OsError ''exit status 1''))))
        (sleep_descriptor\<lparr>RestartPolicy := ''on-failure''\<rparr>)
      = Some (Some Backoff, sleep_descriptor\<lparr>RestartPolicy := ''on-failure'',
          LastError := Some (OsError ''exit status 1'')\<rparr>)
   \<and> running False (ok (Result (Some (OsError ''exit status 1''))))
        (sleep_descriptor\<lparr>RestartPolicy := ''on-failure''\<rparr>)
      = Some (Some Restarting, sleep_descriptor\<lparr>RestartPolicy := ''on-failure'',
          LastError := Some (OsError ''exit status 1'')\<rparr>)"
  using restart_policy_evaluation [of "ok (Result (Some (OsError ''exit status 1'')))"
      "Some (OsError ''exit status 1'')" False "sleep_descriptor\<lparr>RestartPolicy := ''on-failure''\<rparr>"]
  by (simp add: ok_def)

section \<open>The counters\<close>

text \<open>
  C2, as the code has it. One call of a state function leaves \<open>RestartCount\<close> as it
  is or, in \<open>restarting\<close>, adds one to it; so over a run the restart counter does
  not decrease (short of the 2^63 calls that would wrap a 64-bit counter). It leaves
  \<open>StartAttempt\<close> as it is or, in \<open>backoff\<close>, adds one to it, with one exception:
  \<open>starting\<close> sets it back to 0 when the start timeout elapses and the child is
  still alive, on its way to \<open>running\<close>. The counterexample is a run of a new
  descriptor with policy \<open>always\<close>: the child exits at once, \<open>backoff\<close> counts 1,
  the next child survives the start timeout, and the counter is 0 again.
\<close>

theorem counters_change:
  "(step c w s p = Some (so, p') \<longrightarrow>
      (RestartCount p' = RestartCount p
        \<or> (s = Restarting \<and> RestartCount p' = RestartCount p + 1))
    \<and> (StartAttempt p' = StartAttempt p
        \<or> (s = Backoff \<and> StartAttempt p' = StartAttempt p + 1)
        \<or> (s = Starting \<and> os_err w = None \<and> wake w = After \<and> so = Some Running
             \<and> StartAttempt p' = 0)))
   \<and> (run es (so0, p0) = Some (so1, p1)
        \<and> sint (RestartCount p0) + int (length es) < 2 ^ 63 \<longrightarrow>
      RestartCount p0 \<le>s RestartCount p1)"
  using step_counters [of c w s p so p'] run_RestartCount [of es so0 p0 so1 p1]
  by (simp add: word_sle_eq)

theorem counters_only_increase_counterexample:
  "map_option (\<lambda>cfg. (fst cfg, StartAttempt (snd cfg)))
      (run [(False, ok (Result None)), (False, ok After)]
        (Some Starting, sleep_descriptor\<lparr>RestartPolicy := ''always''\<rparr>))
     = Some (Some Starting, 1)
   \<and> map_option (\<lambda>cfg. (fst cfg, StartAttempt (snd cfg)))
      (run [(False, ok (Result None)), (False, ok After), (False, ok After)]
        (Some Starting, sleep_descriptor\<lparr>RestartPolicy := ''always''\<rparr>))
     = Some (Some Running, 0)
   \<and> \<not> (1 :: goint) \<le>s 0"
  by (simp add: step_def starting_def backoff_def ok_def sleep_descriptor_def Let_def
      word_sle_eq)

theorem counters_change_witness:
  "step False (ok After) Restarting sleep_descriptor
     = Some (Some Starting, sleep_descriptor\<lparr>State := ''restarting'', RestartCount := 1\<rparr>)
   \<and> run [(False, ok After)] (Some Restarting, sleep_descriptor)
     = Some (Some Starting, sleep_descriptor\<lparr>State := ''restarting'', RestartCount := 1\<rparr>)
   \<and> sint (RestartCount sleep_descriptor) + int (length [(False, ok After)]) < 2 ^ 63
   \<and> RestartCount sleep_descriptor
       \<le>s RestartCount (sleep_descriptor\<lparr>State := ''restarting'', RestartCount := 1\<rparr>)"
proof -
  have s: "step False (ok After) Restarting sleep_descriptor
     = Some (Some Starting, sleep_descriptor\<lparr>State := ''restarting'', RestartCount := 1\<rparr>)"
    by (simp add: step_def restarting_def ok_def sleep_descriptor_def Let_def)
  then have r: "run [(False, ok After)] (Some Restarting, sleep_descriptor)
     = Some (Some Starting, sleep_descriptor\<lparr>State := ''restarting'', RestartCount := 1\<rparr>)"
    by simp
  have b: "sint (RestartCount sleep_descriptor) + int (length [(False, ok After)]) < 2 ^ 63"
    by (simp add: sleep_descriptor_def)
  from counters_change [of False "ok After" Restarting sleep_descriptor "Some Starting"
      "sleep_descriptor\<lparr>State := ''restarting'', RestartCount := 1\<rparr>"
      "[(False, ok After)]" "Some Restarting" sleep_descriptor "Some Starting"
      "sleep_descriptor\<lparr>State := ''restarting'', RestartCount := 1\<rparr>"] s r b
  show ?thesis by simp
qed

section \<open>The backoff state\<close>

text \<open>
  C3, as the code has it. \<open>backoff\<close> adds one to the start-attempt counter first.
  When \<open>MaxStartAttempts\<close> is not zero and the new count is at least
  \<open>MaxStartAttempts\<close> (as signed integers), it goes to \<open>failed\<close>, and the last error
  becomes an error whose message quotes the previous last error. Otherwise it waits:
  cancellation leads to \<open>stopping\<close>, the backoff delay to \<open>starting\<close> with the last
  error set to nil. The test of the code is \<open>!= 0\<close>, not \<open>> 0\<close>: with a negative
  \<open>MaxStartAttempts\<close> the first call fails instead of waiting, which is the
  counterexample.
\<close>

theorem backoff_behaviour:
  "(MaxStartAttempts p \<noteq> 0 \<and> MaxStartAttempts p \<le>s StartAttempt p + 1 \<longrightarrow>
      backoff c w p = Some (Some Failed, p\<lparr>StartAttempt := StartAttempt p + 1,
        LastError := Some (Errorf
          (''maximum start attempts reached (last error: '' @ fmt_v (LastError p) @ '')''))\<rparr>))
   \<and> (\<not> (MaxStartAttempts p \<noteq> 0 \<and> MaxStartAttempts p \<le>s StartAttempt p + 1) \<longrightarrow>
        (wake w = Done \<and> c \<longrightarrow>
           backoff c w p = Some (Some Stopping, p\<lparr>StartAttempt := StartAttempt p + 1\<rparr>))
      \<and> (wake w = After \<longrightarrow>
           backoff c w p = Some (Some Starting,
             p\<lparr>StartAttempt := StartAttempt p + 1, LastError := None\<rparr>)))"
  by (simp add: backoff_def Let_def)

theorem backoff_positive_budget_counterexample:
  "\<not> 0 <s MaxStartAttempts (sleep_descriptor\<lparr>MaxStartAttempts := - 1\<rparr>)
   \<and> backoff False (ok After) (sleep_descriptor\<lparr>MaxStartAttempts := - 1\<rparr>)
     = Some (Some Failed, sleep_descriptor\<lparr>MaxStartAttempts := - 1, StartAttempt := 1,
         LastError := Some (Errorf ''maximum start attempts reached (last error: <nil>)'')\<rparr>)
   \<and> backoff False (ok After) (sleep_descriptor\<lparr>MaxStartAttempts := - 1\<rparr>)
     \<noteq> Some (Some Starting, sleep_descriptor\<lparr>MaxStartAttempts := - 1, StartAttempt := 1,
         LastError := None\<rparr>)"
  by (simp add: backoff_def ok_def sleep_descriptor_def Let_def word_sle_eq word_sless_alt)

theorem backoff_behaviour_witness:
  "MaxStartAttempts (sleep_descriptor\<lparr>MaxStartAttempts := 2, StartAttempt := 1,
       LastError := Some (OsError ''exit status 1'')\<rparr>) \<noteq> 0
   \<and> MaxStartAttempts (sleep_descriptor\<lparr>MaxStartAttempts := 2, StartAttempt := 1,
       LastError := Some (OsError ''exit status 1'')\<rparr>)
     \<le>s StartAttempt (sleep_descriptor\<lparr>MaxStartAttempts := 2, StartAttempt := 1,
       LastError := Some (OsError ''exit status 1'')\<rparr>) + 1
   \<and> backoff False (ok After) (sleep_descriptor\<lparr>MaxStartAttempts := 2, StartAttempt := 1,
       LastError := Some (OsError ''exit status 1'')\<rparr>)
     = Some (Some Failed, sleep_descriptor\<lparr>MaxStartAttempts := 2, StartAttempt := 2,
         LastError := Some (Errorf
           ''maximum start attempts reached (last error: exit status 1)'')\<rparr>)"
  using backoff_behaviour [of "sleep_descriptor\<lparr>MaxStartAttempts := 2, StartAttempt := 1,
       LastError := Some (OsError ''exit status 1'')\<rparr>" False "ok After"]
  by (simp add: word_sle_eq)

section \<open>The restarting state\<close>

text \<open>
  C4, as the code has it. \<open>restarting\<close> adds one to the restart counter first. When
  \<open>MaxRestarts\<close> is not zero and the new count is at least \<open>MaxRestarts\<close> (as
  signed integers), it goes to \<open>failed\<close> if the last error is not nil and to
  \<open>stopped\<close> if it is nil. Otherwise it waits: cancellation leads to \<open>stopping\<close>,
  the restart delay to \<open>starting\<close> with the last error set to nil. The test of the
  code is \<open>!= 0\<close>, not \<open>> 0\<close>: with a negative \<open>MaxRestarts\<close> the first call ends
  the run instead of waiting, which is the counterexample.
\<close>

theorem restarting_behaviour:
  "(MaxRestarts p \<noteq> 0 \<and> MaxRestarts p \<le>s RestartCount p + 1 \<longrightarrow>
      (LastError p \<noteq> None \<longrightarrow>
         restarting c w p = Some (Some Failed, p\<lparr>RestartCount := RestartCount p + 1\<rparr>))
    \<and> (LastError p = None \<longrightarrow>
         restarting c w p = Some (Some Stopped, p\<lparr>RestartCount := RestartCount p + 1\<rparr>)))
   \<and> (\<not> (MaxRestarts p \<noteq> 0 \<and> MaxRestarts p \<le>s RestartCount p + 1) \<longrightarrow>
        (wake w = Done \<and> c \<longrightarrow>
           restarting c w p = Some (Some Stopping, p\<lparr>RestartCount := RestartCount p + 1\<rparr>))
      \<and> (wake w = After \<longrightarrow>
           restarting c w p = Some (Some Starting,
             p\<lparr>RestartCount := RestartCount p + 1, LastError := None\<rparr>)))"
  by (simp add: restarting_def Let_def)

theorem restarting_positive_budget_counterexample:
  "\<not> 0 <s MaxRestarts (sleep_descriptor\<lparr>MaxRestarts := - 1\<rparr>)
   \<and> restarting False (ok After) (sleep_descriptor\<lparr>MaxRestarts := - 1\<rparr>)
     = Some (Some Stopped, sleep_descriptor\<lparr>MaxRestarts := - 1, RestartCount := 1\<rparr>)
   \<and> restarting False (ok After) (sleep_descriptor\<lparr>MaxRestarts := - 1\<rparr>)
     \<noteq> Some (Some Starting, sleep_descriptor\<lparr>MaxRestarts := - 1, RestartCount := 1,
         LastError := None\<rparr>)"
  by (simp add: restarting_def ok_def sleep_descriptor_def Let_def word_sle_eq word_sless_alt)

theorem restarting_behaviour_witness:
  "MaxRestarts (sleep_descriptor\<lparr>MaxRestarts := 3, RestartCount := 2,
       LastError := Some (OsError ''exit status 1'')\<rparr>) \<noteq> 0
   \<and> MaxRestarts (sleep_descriptor\<lparr>MaxRestarts := 3, RestartCount := 2,
       LastError := Some (OsError ''exit status 1'')\<rparr>)
     \<le>s RestartCount (sleep_descriptor\<lparr>MaxRestarts := 3, RestartCount := 2,
       LastError := Some (OsError ''exit status 1'')\<rparr>) + 1
   \<and> LastError (sleep_descriptor\<lparr>MaxRestarts := 3, RestartCount := 2,
       LastError := Some (OsError ''exit status 1'')\<rparr>) \<noteq> None
   \<and> restarting False (ok After) (sleep_descriptor\<lparr>MaxRestarts := 3, RestartCount := 2,
       LastError := Some (OsError ''exit status 1'')\<rparr>)
     = Some (Some Failed, sleep_descriptor\<lparr>MaxRestarts := 3, RestartCount := 3,
         LastError := Some (OsError ''exit status 1'')\<rparr>)"
  using restarting_behaviour [of "sleep_descriptor\<lparr>MaxRestarts := 3, RestartCount := 2,
       LastError := Some (OsError ''exit status 1'')\<rparr>" False "ok After"]
  by (simp add: word_sle_eq)

section \<open>The failed state carries an error\<close>

text \<open>
  C5. A run that starts in \<open>starting\<close> and is in, or has ended in, the state
  \<open>failed\<close> has a last error that is not nil, whatever the world answered on the
  way: a failed spawn, a signal that could not be sent, the kill timeout, the start
  attempts used up and the restarts used up are all the ways into \<open>failed\<close>.
\<close>

theorem failed_has_last_error:
  assumes "run es (Some Starting, p0) = Some (so, p)"
    and "so = Some Failed \<or> (so = None \<and> State p = ''failed'')"
  shows "LastError p \<noteq> None"
  using run_failed_inv [OF assms(1)] assms(2) by auto

theorem failed_has_last_error_witness:
  "run [(False, \<lparr>os_err = Some (OsError ''no such file''), wake = After\<rparr>), (False, ok After)]
      (Some Starting, sleep_descriptor)
     = Some (None, sleep_descriptor\<lparr>State := ''failed'',
         LastError := Some (OsError ''no such file'')\<rparr>)
   \<and> State (sleep_descriptor\<lparr>State := ''failed'',
         LastError := Some (OsError ''no such file'')\<rparr>) = ''failed''
   \<and> LastError (sleep_descriptor\<lparr>State := ''failed'',
         LastError := Some (OsError ''no such file'')\<rparr>) \<noteq> None"
proof -
  have r: "run [(False, \<lparr>os_err = Some (OsError ''no such file''), wake = After\<rparr>),
        (False, ok After)] (Some Starting, sleep_descriptor)
     = Some (None, sleep_descriptor\<lparr>State := ''failed'',
         LastError := Some (OsError ''no such file'')\<rparr>)"
    by (simp add: step_def starting_def failed_def sleep_descriptor_def)
  have s: "None = Some Failed \<or> (None = (None :: sname option)
      \<and> State (sleep_descriptor\<lparr>State := ''failed'',
           LastError := Some (OsError ''no such file'')\<rparr>) = ''failed'')"
    by simp
  from failed_has_last_error [OF r s] r show ?thesis by simp
qed

section \<open>The kill timeout\<close>

text \<open>
  C6. In \<open>killing\<close>, once the kill signal is sent, the kill timeout that elapses
  before the exit of the child is seen leads to \<open>failed\<close>, not to \<open>stopped\<close>, and
  the last error is the error made there, "failed to kill process".
\<close>

theorem kill_timeout_fails:
  assumes "os_err w = None" and "wake w = After"
  shows "killing c w p
      = Some (Some Failed, p\<lparr>LastError := Some (Errorf ''failed to kill process'')\<rparr>)
    \<and> (\<forall>p'. killing c w p \<noteq> Some (Some Stopped, p'))
    \<and> LastError (snd (the (killing c w p))) \<noteq> None"
  using assms by (simp add: killing_def Let_def)

theorem kill_timeout_fails_witness:
  "os_err (ok After) = None \<and> wake (ok After) = After
   \<and> killing True (ok After) sleep_descriptor
      = Some (Some Failed,
          sleep_descriptor\<lparr>LastError := Some (Errorf ''failed to kill process'')\<rparr>)"
  using kill_timeout_fails [of "ok After" True sleep_descriptor]
  by (simp add: ok_def)

section \<open>Cancellation\<close>

text \<open>
  C7, as the code has it. The context is cancelled by the caller's context or by
  the \<open>Stop\<close> handle, which \<open>Run\<close> sets to the cancel function of the context it
  derives from the caller's. Cancellation reaches a state function through its
  \<open>select\<close> only. When the \<open>select\<close> of \<open>starting\<close>, \<open>running\<close>, \<open>backoff\<close>
  or \<open>restarting\<close> commits to the cancellation, the successor is \<open>stopping\<close>. A
  call that returns before its \<open>select\<close> is not rerouted, cancelled or not:
  \<open>starting\<close> returns \<open>failed\<close> when the spawn fails, \<open>backoff\<close> returns
  \<open>failed\<close> and \<open>restarting\<close> returns \<open>failed\<close> or \<open>stopped\<close> when the budget
  is used up. \<open>stopping\<close> and \<open>killing\<close> have no case for the cancellation, and
  what they return is the same whether the context is cancelled or not. The
  counterexample has the context cancelled and the world offering the cancellation:
  \<open>backoff\<close> with its budget used up returns \<open>failed\<close>, \<open>restarting\<close> with its
  budget used up returns \<open>stopped\<close>, and \<open>starting\<close> with a failed spawn returns
  \<open>failed\<close>.
\<close>

theorem cancellation_routing:
  assumes "wake w = Done" and "cancelled caller_done stop_called"
  shows "starting (cancelled caller_done stop_called) w p
        = (if os_err w = None then Some (Some Stopping, p\<lparr>LastError := None\<rparr>)
           else Some (Some Failed, p\<lparr>LastError := os_err w\<rparr>))
    \<and> running (cancelled caller_done stop_called) w p = Some (Some Stopping, p)
    \<and> backoff (cancelled caller_done stop_called) w p
        = (if MaxStartAttempts p \<noteq> 0 \<and> MaxStartAttempts p \<le>s StartAttempt p + 1
           then Some (Some Failed, p\<lparr>StartAttempt := StartAttempt p + 1,
             LastError := Some (Errorf
               (''maximum start attempts reached (last error: '' @ fmt_v (LastError p)
                 @ '')''))\<rparr>)
           else Some (Some Stopping, p\<lparr>StartAttempt := StartAttempt p + 1\<rparr>))
    \<and> restarting (cancelled caller_done stop_called) w p
        = (if MaxRestarts p \<noteq> 0 \<and> MaxRestarts p \<le>s RestartCount p + 1
           then Some (Some (if LastError p \<noteq> None then Failed else Stopped),
             p\<lparr>RestartCount := RestartCount p + 1\<rparr>)
           else Some (Some Stopping, p\<lparr>RestartCount := RestartCount p + 1\<rparr>))
    \<and> stopping c w p
        = (if os_err w = None then None else Some (Some Failed, p\<lparr>LastError := os_err w\<rparr>))
    \<and> killing c w p
        = (if os_err w = None then None else Some (Some Failed, p\<lparr>LastError := os_err w\<rparr>))
    \<and> (\<forall>c' w'. stopping c' w' p = stopping (\<not> c') w' p
          \<and> killing c' w' p = killing (\<not> c') w' p)
    \<and> Stop (Run ctx p) = Some (WithCancel ctx)"
  using assms
  by (simp add: starting_def running_def backoff_def restarting_def stopping_def killing_def
      Run_def Let_def)

theorem cancellation_routing_counterexample:
  "cancelled True False \<and> wake (ok Done) = Done
   \<and> backoff (cancelled True False) (ok Done) (sleep_descriptor\<lparr>MaxStartAttempts := 1\<rparr>)
     = Some (Some Failed, sleep_descriptor\<lparr>MaxStartAttempts := 1, StartAttempt := 1,
         LastError := Some (Errorf ''maximum start attempts reached (last error: <nil>)'')\<rparr>)
   \<and> restarting (cancelled True False) (ok Done) (sleep_descriptor\<lparr>MaxRestarts := 1\<rparr>)
     = Some (Some Stopped, sleep_descriptor\<lparr>MaxRestarts := 1, RestartCount := 1\<rparr>)
   \<and> starting (cancelled True False) \<lparr>os_err = Some (OsError ''no such file''), wake = Done\<rparr>
        sleep_descriptor
     = Some (Some Failed, sleep_descriptor\<lparr>LastError := Some (OsError ''no such file'')\<rparr>)"
  by (simp add: cancelled_def ok_def backoff_def restarting_def starting_def
      sleep_descriptor_def Let_def word_sle_eq)

theorem cancellation_routing_witness:
  "wake (ok Done) = Done \<and> cancelled False True
   \<and> starting (cancelled False True) (ok Done) sleep_descriptor
       = Some (Some Stopping, sleep_descriptor)
   \<and> running (cancelled False True) (ok Done) sleep_descriptor
       = Some (Some Stopping, sleep_descriptor)
   \<and> backoff (cancelled False True) (ok Done) sleep_descriptor
       = Some (Some Stopping, sleep_descriptor\<lparr>StartAttempt := 1\<rparr>)
   \<and> restarting (cancelled False True) (ok Done) sleep_descriptor
       = Some (Some Stopping, sleep_descriptor\<lparr>RestartCount := 1\<rparr>)
   \<and> stopping True (ok Done) sleep_descriptor = None
   \<and> killing True (ok Done) sleep_descriptor = None
   \<and> Stop (Run (Caller 0) sleep_descriptor) = Some (WithCancel (Caller 0))"
proof -
  have w: "wake (ok Done) = Done" by (simp add: ok_def)
  have c: "cancelled False True" by (simp add: cancelled_def)
  from cancellation_routing [OF w c, of sleep_descriptor True "Caller 0"] w c show ?thesis
    by (simp add: ok_def sleep_descriptor_def)
qed

section \<open>A failed spawn\<close>

text \<open>
  C8. When \<open>cmd.Start\<close> fails in \<open>starting\<close>, the successor is \<open>failed\<close> and the
  last error is the error of the spawn, whatever the restart policy is and whatever
  else the world would answer: the \<open>select\<close> and the policy are not reached. The run
  ends there, in the state \<open>failed\<close>, with that error, so nothing is started again.
\<close>

theorem spawn_failure_fails:
  assumes "os_err w = Some e"
  shows "starting c w p = Some (Some Failed, p\<lparr>LastError := Some e\<rparr>)
    \<and> starting c w (p\<lparr>RestartPolicy := pol\<rparr>)
        = Some (Some Failed, p\<lparr>RestartPolicy := pol, LastError := Some e\<rparr>)
    \<and> run ((c, w) # cw # cws) (Some Starting, p)
        = Some (None, p\<lparr>State := ''failed'', LastError := Some e\<rparr>)"
  using assms by (cases cw) (simp add: starting_def failed_def step_def Let_def run_halted)

theorem spawn_failure_fails_witness:
  "os_err \<lparr>os_err = Some (OsError ''no such file''), wake = Result None\<rparr>
      = Some (OsError ''no such file'')
   \<and> starting False \<lparr>os_err = Some (OsError ''no such file''), wake = Result None\<rparr>
        (sleep_descriptor\<lparr>RestartPolicy := ''always''\<rparr>)
      = Some (Some Failed, sleep_descriptor\<lparr>RestartPolicy := ''always'',
          LastError := Some (OsError ''no such file'')\<rparr>)"
  using spawn_failure_fails [of "\<lparr>os_err = Some (OsError ''no such file''), wake = Result None\<rparr>"
      "OsError ''no such file''" False "sleep_descriptor\<lparr>RestartPolicy := ''always''\<rparr>"]
  by simp

section \<open>The budgets bound the counters\<close>

text \<open>
  C9, as the code has it. \<open>Run\<close> takes the counters as it finds them, so the
  budgets bound them only in a run that starts within its budgets: take a run with
  \<open>MaxStartAttempts\<close> positive whose start-attempt counter is at least 0 and
  below \<open>MaxStartAttempts\<close> when \<open>Run\<close> is called, as it is in every new
  descriptor, where it is 0. The counter then lies between 0 and
  \<open>MaxStartAttempts\<close> in every configuration the run reaches, and where \<open>backoff\<close>
  sends the run to \<open>failed\<close> it is exactly \<open>MaxStartAttempts\<close>. In the same way,
  with \<open>MaxRestarts\<close> positive and the restart counter at least 0 and below
  \<open>MaxRestarts\<close> at the call, the restart counter lies between 0 and
  \<open>MaxRestarts\<close>, and where \<open>restarting\<close> ends the run, through \<open>failed\<close> or
  \<open>stopped\<close>, it is exactly \<open>MaxRestarts\<close>. With \<open>MaxStartAttempts = 1\<close> every
  call of \<open>backoff\<close> in such a run returns \<open>failed\<close> whatever the world answers:
  it does not wait for the backoff delay and does not go back to \<open>starting\<close>. The
  counterexample is a descriptor that comes with \<open>StartAttempt = 5\<close> and
  \<open>MaxStartAttempts = 2\<close>: the counter is above the budget from the start and is 6
  when \<open>backoff\<close> fails the run.
\<close>

theorem budgets_bound_counters:
  assumes "run es (Some Starting, p0) = Some (so, p)"
  shows "(0 <s MaxStartAttempts p0 \<and> 0 \<le>s StartAttempt p0
          \<and> StartAttempt p0 <s MaxStartAttempts p0 \<longrightarrow>
        0 \<le>s StartAttempt p \<and> StartAttempt p \<le>s MaxStartAttempts p0
      \<and> (\<forall>c w p'. so = Some Backoff \<and> step c w Backoff p = Some (Some Failed, p')
            \<longrightarrow> StartAttempt p' = MaxStartAttempts p0)
      \<and> (MaxStartAttempts p0 = 1 \<and> so = Some Backoff \<longrightarrow>
            (\<forall>c w. step c w Backoff p = Some (Some Failed,
               p\<lparr>State := ''backoff'', StartAttempt := 1, LastError := Some (Errorf
                 (''maximum start attempts reached (last error: '' @ fmt_v (LastError p)
                   @ '')''))\<rparr>))))
    \<and> (0 <s MaxRestarts p0 \<and> 0 \<le>s RestartCount p0
          \<and> RestartCount p0 <s MaxRestarts p0 \<longrightarrow>
        0 \<le>s RestartCount p \<and> RestartCount p \<le>s MaxRestarts p0
      \<and> (\<forall>c w so' p'. so = Some Restarting \<and> step c w Restarting p = Some (so', p')
            \<and> (so' = Some Failed \<or> so' = Some Stopped)
            \<longrightarrow> RestartCount p' = MaxRestarts p0))"
  using start_budget_part [OF assms] restart_budget_part [OF assms] by blast

theorem budgets_bound_counters_counterexample:
  "0 <s MaxStartAttempts
      (sleep_descriptor\<lparr>RestartPolicy := ''always'', MaxStartAttempts := 2, StartAttempt := 5\<rparr>)
   \<and> run [(False, ok (Result None)), (False, ok After)]
      (Some Starting,
       sleep_descriptor\<lparr>RestartPolicy := ''always'', MaxStartAttempts := 2, StartAttempt := 5\<rparr>)
     = Some (Some Failed,
         sleep_descriptor\<lparr>RestartPolicy := ''always'', MaxStartAttempts := 2,
           StartAttempt := 6, State := ''backoff'',
           LastError := Some (Errorf ''maximum start attempts reached (last error: <nil>)'')\<rparr>)
   \<and> \<not> (6 :: goint) \<le>s 2 \<and> (6 :: goint) \<noteq> 2"
  by (simp add: step_def starting_def backoff_def ok_def sleep_descriptor_def Let_def
      word_sle_eq word_sless_alt)

theorem budgets_bound_counters_witness:
  "run [(False, ok (Result (Some (OsError ''exit status 1''))))]
      (Some Starting, bounded_descriptor)
     = Some (Some Backoff, bounded_descriptor\<lparr>State := ''starting'',
         LastError := Some (OsError ''exit status 1'')\<rparr>)
   \<and> run [(False, ok After), (False, ok (Result None)), (False, ok After),
           (False, ok After), (False, ok (Result None)), (False, ok After),
           (False, ok After), (False, ok (Result None))]
      (Some Starting, bounded_descriptor)
     = Some (Some Restarting, bounded_descriptor\<lparr>State := ''running'', RestartCount := 2\<rparr>)
   \<and> 0 <s MaxStartAttempts bounded_descriptor \<and> 0 \<le>s StartAttempt bounded_descriptor
   \<and> StartAttempt bounded_descriptor <s MaxStartAttempts bounded_descriptor
   \<and> 0 <s MaxRestarts bounded_descriptor \<and> 0 \<le>s RestartCount bounded_descriptor
   \<and> RestartCount bounded_descriptor <s MaxRestarts bounded_descriptor
   \<and> MaxStartAttempts bounded_descriptor = 1
   \<and> StartAttempt (bounded_descriptor\<lparr>State := ''starting'',
         LastError := Some (OsError ''exit status 1'')\<rparr>)
       \<le>s MaxStartAttempts bounded_descriptor
   \<and> RestartCount (bounded_descriptor\<lparr>State := ''running'', RestartCount := 2\<rparr>)
       \<le>s MaxRestarts bounded_descriptor
   \<and> step True (ok Done) Backoff (bounded_descriptor\<lparr>State := ''starting'',
         LastError := Some (OsError ''exit status 1'')\<rparr>)
     = Some (Some Failed, bounded_descriptor\<lparr>State := ''backoff'', StartAttempt := 1,
         LastError := Some (Errorf
           ''maximum start attempts reached (last error: exit status 1)'')\<rparr>)
   \<and> step False (ok After) Restarting
        (bounded_descriptor\<lparr>State := ''running'', RestartCount := 2\<rparr>)
     = Some (Some Stopped, bounded_descriptor\<lparr>State := ''restarting'', RestartCount := 3\<rparr>)
   \<and> RestartCount (bounded_descriptor\<lparr>State := ''restarting'', RestartCount := 3\<rparr>)
     = MaxRestarts bounded_descriptor"
proof -
  let ?P = "bounded_descriptor\<lparr>State := ''starting'',
         LastError := Some (OsError ''exit status 1'')\<rparr>"
  let ?Q = "bounded_descriptor\<lparr>State := ''running'', RestartCount := 2\<rparr>"
  let ?Q' = "bounded_descriptor\<lparr>State := ''restarting'', RestartCount := 3\<rparr>"
  have r: "run [(False, ok (Result (Some (OsError ''exit status 1''))))]
      (Some Starting, bounded_descriptor) = Some (Some Backoff, ?P)"
    by (simp add: step_def starting_def ok_def bounded_descriptor_def sleep_descriptor_def
        Let_def)
  have r': "run [(False, ok After), (False, ok (Result None)), (False, ok After),
           (False, ok After), (False, ok (Result None)), (False, ok After),
           (False, ok After), (False, ok (Result None))]
      (Some Starting, bounded_descriptor) = Some (Some Restarting, ?Q)"
    by (simp add: step_def starting_def running_def restarting_def ok_def
        bounded_descriptor_def sleep_descriptor_def Let_def word_sle_eq)
  have s': "step False (ok After) Restarting ?Q = Some (Some Stopped, ?Q')"
    by (simp add: step_def restarting_def ok_def bounded_descriptor_def sleep_descriptor_def
        Let_def word_sle_eq)
  have h1: "0 <s MaxStartAttempts bounded_descriptor \<and> 0 \<le>s StartAttempt bounded_descriptor
      \<and> StartAttempt bounded_descriptor <s MaxStartAttempts bounded_descriptor"
    by (simp add: bounded_descriptor_def sleep_descriptor_def word_sless_alt word_sle_eq)
  have h2: "0 <s MaxRestarts bounded_descriptor \<and> 0 \<le>s RestartCount bounded_descriptor
      \<and> RestartCount bounded_descriptor <s MaxRestarts bounded_descriptor"
    by (simp add: bounded_descriptor_def sleep_descriptor_def word_sless_alt word_sle_eq)
  have h3: "MaxStartAttempts bounded_descriptor = 1"
    by (simp add: bounded_descriptor_def)
  from budgets_bound_counters [OF r] h1 h3
  have a: "StartAttempt ?P \<le>s MaxStartAttempts bounded_descriptor"
    and c: "step True (ok Done) Backoff ?P = Some (Some Failed,
        ?P\<lparr>State := ''backoff'', StartAttempt := 1, LastError := Some (Errorf
          (''maximum start attempts reached (last error: '' @ fmt_v (LastError ?P)
            @ '')''))\<rparr>)"
    by blast+
  from c have c': "step True (ok Done) Backoff ?P
     = Some (Some Failed, bounded_descriptor\<lparr>State := ''backoff'', StartAttempt := 1,
         LastError := Some (Errorf
           ''maximum start attempts reached (last error: exit status 1)'')\<rparr>)"
    by simp
  from budgets_bound_counters [OF r'] h2 s'
  have b: "RestartCount ?Q \<le>s MaxRestarts bounded_descriptor"
    and d: "RestartCount ?Q' = MaxRestarts bounded_descriptor"
    by blast+
  from r r' h1 h2 h3 a b c' s' d show ?thesis by blast
qed

section \<open>The entry point leaves the configuration alone\<close>

text \<open>
  C10. The synchronous part of \<open>Run\<close> changes the \<open>Stop\<close> handle and those of the
  five timeout fields that are exactly zero, which get their defaults, and nothing
  else: the launch fields, the policy, both budgets, both counters and every timeout
  that is not zero are as before. A negative timeout is not zero, so it stays.
\<close>

theorem Run_frame:
  "Run ctx p = p\<lparr>
      StartTimeout := (if StartTimeout p = 0 then 1000 else StartTimeout p),
      BackoffTimeout := (if BackoffTimeout p = 0 then 5000 else BackoffTimeout p),
      StopTimeout := (if StopTimeout p = 0 then 20000 else StopTimeout p),
      KillTimeout := (if KillTimeout p = 0 then 5000 else KillTimeout p),
      RestartTimeout := (if RestartTimeout p = 0 then 100 else RestartTimeout p),
      Stop := Some (WithCancel ctx)\<rparr>
   \<and> Cmd (Run ctx p) = Cmd p \<and> Args (Run ctx p) = Args p
   \<and> Dir (Run ctx p) = Dir p \<and> Env (Run ctx p) = Env p
   \<and> RestartPolicy (Run ctx p) = RestartPolicy p
   \<and> MaxStartAttempts (Run ctx p) = MaxStartAttempts p
   \<and> MaxRestarts (Run ctx p) = MaxRestarts p
   \<and> StartAttempt (Run ctx p) = StartAttempt p
   \<and> RestartCount (Run ctx p) = RestartCount p
   \<and> (StartTimeout p \<noteq> 0 \<longrightarrow> StartTimeout (Run ctx p) = StartTimeout p)
   \<and> (StopTimeout p \<noteq> 0 \<longrightarrow> StopTimeout (Run ctx p) = StopTimeout p)
   \<and> (BackoffTimeout p \<noteq> 0 \<longrightarrow> BackoffTimeout (Run ctx p) = BackoffTimeout p)
   \<and> (RestartTimeout p \<noteq> 0 \<longrightarrow> RestartTimeout (Run ctx p) = RestartTimeout p)
   \<and> (KillTimeout p \<noteq> 0 \<longrightarrow> KillTimeout (Run ctx p) = KillTimeout p)
   \<and> (StartTimeout p <s 0 \<longrightarrow> StartTimeout (Run ctx p) = StartTimeout p)
   \<and> (StopTimeout p <s 0 \<longrightarrow> StopTimeout (Run ctx p) = StopTimeout p)
   \<and> (BackoffTimeout p <s 0 \<longrightarrow> BackoffTimeout (Run ctx p) = BackoffTimeout p)
   \<and> (RestartTimeout p <s 0 \<longrightarrow> RestartTimeout (Run ctx p) = RestartTimeout p)
   \<and> (KillTimeout p <s 0 \<longrightarrow> KillTimeout (Run ctx p) = KillTimeout p)"
  by (auto simp add: Run_def Let_def startTimeout_def stopTimeout_def backoffTimeout_def
      restartTimeout_def killTimeout_def)

theorem Run_frame_witness:
  "StopTimeout (sleep_descriptor\<lparr>StopTimeout := - 1, KillTimeout := 7\<rparr>) <s 0
   \<and> StopTimeout (sleep_descriptor\<lparr>StopTimeout := - 1, KillTimeout := 7\<rparr>) \<noteq> 0
   \<and> Run (Caller 0) (sleep_descriptor\<lparr>StopTimeout := - 1, KillTimeout := 7\<rparr>)
     = sleep_descriptor\<lparr>StartTimeout := 1000, BackoffTimeout := 5000, StopTimeout := - 1,
         KillTimeout := 7, RestartTimeout := 100, Stop := Some (WithCancel (Caller 0))\<rparr>"
  using Run_frame [of "Caller 0" "sleep_descriptor\<lparr>StopTimeout := - 1, KillTimeout := 7\<rparr>"]
  by (simp add: sleep_descriptor_def word_sless_alt)

end
